theory Spec2Isabelle
  imports Main "HOL-Library.Countable"
begin

section \<open>Python values, exceptions and arrays\<close>

text \<open>
  The script \<^verbatim>\<open>Scripts/GeoSklearnRegression.py\<close> is glue code: it selects a scikit-learn
  estimator by name, fits it to columns of an ArcGIS feature class and reports the result.
  The embedding below follows the script statement by statement. Every call into a library
  (scikit-learn, numpy, arcpy, the operating system) is a field of a record of functions, so
  that a theorem about the script holds for whatever the libraries answer; a call that can
  raise returns a sum, \<open>Inl\<close> carrying the exception.
\<close>

datatype exn_class =
  ExecuteError | AttributeError | KeyError | TypeError | ValueError | IndexError
  | NameError | OSError | RuntimeError | MemoryError | KeyboardInterrupt | SystemExit

text \<open>An exception object: its class and \<^verbatim>\<open>e.args\<close>, each argument as \<^verbatim>\<open>str\<close> renders it.\<close>

datatype exn = Exn (exn_cls: exn_class) (exn_args: "string list")

text \<open>
  \<^verbatim>\<open>except Exception\<close> matches every class above but \<^verbatim>\<open>KeyboardInterrupt\<close> and
  \<^verbatim>\<open>SystemExit\<close>, which derive from \<^verbatim>\<open>BaseException\<close> only.
\<close>

definition is_Exception :: "exn_class \<Rightarrow> bool" where
  "is_Exception c = (c \<noteq> KeyboardInterrupt \<and> c \<noteq> SystemExit)"

datatype 'n pyval = PyNone | PyBool bool | PyNum 'n | PyStr string

text \<open>A numpy array of dimension 0, 1 or 2 (a matrix is the list of its rows).\<close>

datatype 'n ndarray = Arr0 'n | Arr1 "'n list" | Arr2 "'n list list"

text \<open>\<^verbatim>\<open>a.shape[0]\<close>: the shape of a 0-d array is the empty tuple, and indexing it raises.\<close>

fun shape0 :: "'n ndarray \<Rightarrow> exn + nat" where
  "shape0 (Arr0 x) = Inl (Exn IndexError [''tuple index out of range''])"
| "shape0 (Arr1 xs) = Inr (length xs)"
| "shape0 (Arr2 rows) = Inr (length rows)"

text \<open>A structured (record) array as arcpy returns it: its columns by field name.\<close>

type_synonym 'n sarray = "(string \<times> 'n list) list"

text \<open>\<^verbatim>\<open>a[field_name]\<close> on a structured array.\<close>

definition field :: "'n sarray \<Rightarrow> string \<Rightarrow> exn + 'n ndarray" where
  "field a f =
     (case map_of a f of
        None \<Rightarrow> Inl (Exn ValueError [''no field of name '' @ f])
      | Some col \<Rightarrow> Inr (Arr1 col))"

text \<open>
  An estimator object: its class, its constructor parameters (\<^verbatim>\<open>get_params()\<close>), and the
  attributes \<^verbatim>\<open>coef_\<close> and \<^verbatim>\<open>intercept_\<close> (here \<open>coef\<close> and \<open>intercept\<close>: a name
  cannot end in an underscore), which exist only once the estimator is fitted (\<open>None\<close>: the
  attribute is absent). \<^verbatim>\<open>coef_\<close> is an array: a vector for one target variable, a matrix
  with one row per target for several.
\<close>

record 'n estimator =
  est_class :: string
  est_params :: "(string \<times> 'n pyval) list"
  coef :: "'n ndarray option"
  intercept :: "'n option"


text \<open>
  What the script asks of Python, numpy and scikit-learn. The \<open>str_\<close> fields are \<^verbatim>\<open>str\<close> (and
  \<^verbatim>\<open>format\<close> with an empty format) at the types the script applies it to; \<open>round_nd\<close> is
  \<^verbatim>\<open>round(x, ndigits)\<close> on a number and \<open>round_row\<close> the same call on a 1-d array, which
  raises or returns according to the versions of Python and numpy. Floating-point arithmetic
  stays inside these functions: the number type \<open>'n\<close> is a parameter. \<open>set_params m k v\<close> is
  \<^verbatim>\<open>m.set_params(k=v)\<close>, \<open>fit\<close> and \<open>predict\<close> are the estimator's methods, the last five are
  \<^verbatim>\<open>sklearn.metrics\<close> and \<^verbatim>\<open>sklearn.feature_selection.f_regression\<close>.
\<close>

record 'n pylib =
  str_model :: "'n estimator \<Rightarrow> string"
  str_num :: "'n \<Rightarrow> string"
  str_vec :: "'n list \<Rightarrow> string"
  str_mat :: "'n list list \<Rightarrow> string"
  str_pairs :: "(string \<times> 'n) list \<Rightarrow> string"
  round_nd :: "'n \<Rightarrow> nat \<Rightarrow> 'n"
  round_row :: "'n list \<Rightarrow> nat \<Rightarrow> exn + 'n list"
  set_params :: "'n estimator \<Rightarrow> string \<Rightarrow> 'n pyval \<Rightarrow> exn + 'n estimator"
  fit :: "'n estimator \<Rightarrow> 'n ndarray \<Rightarrow> 'n ndarray \<Rightarrow> exn + 'n estimator"
  predict :: "'n estimator \<Rightarrow> 'n ndarray \<Rightarrow> exn + 'n ndarray"
  r2_score :: "'n ndarray \<Rightarrow> 'n ndarray \<Rightarrow> exn + 'n"
  mean_squared_error :: "'n ndarray \<Rightarrow> 'n ndarray \<Rightarrow> exn + 'n"
  mean_absolute_error :: "'n ndarray \<Rightarrow> 'n ndarray \<Rightarrow> exn + 'n"
  median_absolute_error :: "'n ndarray \<Rightarrow> 'n ndarray \<Rightarrow> exn + 'n"
  f_regression :: "'n ndarray \<Rightarrow> 'n ndarray \<Rightarrow> exn + 'n list \<times> 'n list"

text \<open>
  A module object: its name and its attributes. The script only ever calls an attribute with
  no arguments, so an attribute is given by what that call does: it returns a fresh estimator
  or raises (the attribute is not callable, or its constructor needs arguments).
\<close>

record 'n namespace =
  ns_name :: string
  ns_attrs :: "string \<rightharpoonup> exn + 'n estimator"

text \<open>
  What \<^verbatim>\<open>arcpy.Describe\<close> returns, as far as the script reads it. Reading the three
  attributes is counted with the call: \<open>Describe\<close> below raises when one of them is missing.
\<close>

record desc =
  OIDFieldName :: string
  catalogPath :: string
  name :: string

text \<open>
  The host: the script's global bindings (\<^verbatim>\<open>globals()\<close>), arcpy, the numpy conversions of
  arcpy's arrays, and the operating system's answers on files. \<open>open_w\<close>, \<open>remove\<close> and
  \<open>dump\<close> say whether \<^verbatim>\<open>open(p, "w")\<close>, \<^verbatim>\<open>os.remove(p)\<close> and \<^verbatim>\<open>joblib.dump(m, p)\<close> raise (for
  \<open>dump\<close> also when the name \<^verbatim>\<open>joblib\<close> is unbound, its import having failed); what they do to
  the files when they succeed is written out below.
\<close>

record 'n host =
  globals :: "string \<rightharpoonup> 'n namespace"
  Describe :: "string \<Rightarrow> exn + desc"
  dirname :: "string \<Rightarrow> string"
  FeatureClassToNumPyArray :: "string \<Rightarrow> string list \<Rightarrow> exn + 'n sarray"
  view_float64 :: "'n sarray \<Rightarrow> exn + 'n ndarray"
  ValidateFieldName :: "string \<Rightarrow> string \<Rightarrow> exn + string"
  np_array :: "'n ndarray \<Rightarrow> 'n ndarray \<Rightarrow> string \<Rightarrow> string \<Rightarrow> exn + 'n sarray"
  ExtendTable :: "string \<Rightarrow> string \<Rightarrow> 'n sarray \<Rightarrow> string \<Rightarrow> exn option"
  GetMessages :: "nat \<Rightarrow> string"
  path_join :: "string \<Rightarrow> string \<Rightarrow> string"
  open_w :: "string \<Rightarrow> exn option"
  remove :: "string \<Rightarrow> exn option"
  dump :: "'n estimator \<Rightarrow> string \<Rightarrow> exn option"

section \<open>The world the script acts on\<close>

datatype 'n fcontent = Dir | Text "string list" | Pickle "'n estimator"

text \<open>
  \<open>messages\<close>: what \<^verbatim>\<open>gl.arc_print\<close> has reported; \<open>stdout\<close>: what \<^verbatim>\<open>print\<close> has written;
  \<open>files\<close>: the file system (a text file is the list of the strings written to it);
  \<open>extended\<close>: the \<^verbatim>\<open>ExtendTable\<close> joins applied to feature classes.
\<close>

record 'n world =
  messages :: "string list"
  stdout :: "string list"
  files :: "string \<rightharpoonup> 'n fcontent"
  extended :: "(string \<times> string \<times> 'n sarray \<times> string) list"

text \<open>A statement sequence: it runs in a world and returns a value or raises, in a new world.\<close>

type_synonym ('n, 'a) comp = "'n world \<Rightarrow> (exn + 'a) \<times> 'n world"

definition ret :: "'a \<Rightarrow> ('n, 'a) comp" where
  "ret x s = (Inr x, s)"

definition lift :: "exn + 'a \<Rightarrow> ('n, 'a) comp" where
  "lift r s = (r, s)"

definition act :: "('n world \<Rightarrow> 'n world) \<Rightarrow> ('n, unit) comp" where
  "act f s = (Inr (), f s)"

text \<open>\<open>bnd m f\<close>: run \<open>m\<close>; if it raises, the exception goes on with the world as it is by then.\<close>

definition bnd :: "('n, 'a) comp \<Rightarrow> ('a \<Rightarrow> ('n, 'b) comp) \<Rightarrow> ('n, 'b) comp" where
  "bnd m f s = (case m s of (Inl e, s') \<Rightarrow> (Inl e, s') | (Inr x, s') \<Rightarrow> f x s')"

text \<open>A statement sequence that leaves the file system as it found it.\<close>

definition keeps_files :: "('n, 'a) comp \<Rightarrow> bool" where
  "keeps_files m = (\<forall>s. files (snd (m s)) = files s)"

text \<open>
  Modelled from the spec: \<^verbatim>\<open>glearnlib.arc_print\<close> is not among the source files. The spec has
  the report "logged" and failures "reported as a message" through it, so it appends its
  argument to the messages and does nothing else.
\<close>

definition arc_print :: "string \<Rightarrow> 'n world \<Rightarrow> 'n world" where
  "arc_print msg s = s\<lparr>messages := messages s @ [msg]\<rparr>"

text \<open>
  Modelled from the spec: the decorator \<^verbatim>\<open>glearnlib.arc_tool_report\<close> is not among the source
  files. The spec describes \<^verbatim>\<open>get_model\<close> as raising to its caller when the type name is
  unknown and the report builder as free of effects, so the decorator passes the function's
  result and its exceptions through unchanged.
\<close>

definition arc_tool_report :: "'f \<Rightarrow> 'f" where
  "arc_tool_report f = f"

definition py_print :: "string \<Rightarrow> 'n world \<Rightarrow> 'n world" where
  "py_print msg s = s\<lparr>stdout := stdout s @ [msg]\<rparr>"

section \<open>The model factory: \<^verbatim>\<open>get_model\<close> (lines 45 to 65)\<close>

text \<open>\<^verbatim>\<open>globals()[module]\<close>: a name that is not bound raises \<^verbatim>\<open>KeyError(module)\<close>.\<close>

definition lookup_global :: "'n host \<Rightarrow> string \<Rightarrow> exn + 'n namespace" where
  "lookup_global h module =
     (case globals h module of
        None \<Rightarrow> Inl (Exn KeyError [module])
      | Some module_dict \<Rightarrow> Inr module_dict)"

text \<open>\<^verbatim>\<open>getattr(module_dict, regression_type)\<close>, with the message Python 3 gives.\<close>

definition getattr :: "'n namespace \<Rightarrow> string \<Rightarrow> exn + (exn + 'n estimator)" where
  "getattr module_dict regression_type =
     (case ns_attrs module_dict regression_type of
        None \<Rightarrow>
          Inl (Exn AttributeError
            [''module '' @ [CHR 0x27] @ ns_name module_dict @ [CHR 0x27]
              @ '' has no attribute '' @ [CHR 0x27] @ regression_type @ [CHR 0x27]])
      | Some cls \<Rightarrow> Inr cls)"

text \<open>
  The body of \<^verbatim>\<open>get_model\<close>. Each \<^verbatim>\<open>try\<close> around a \<^verbatim>\<open>set_params\<close> has a bare
  \<^verbatim>\<open>except\<close>: whatever is raised, the model stays as it was, a line is printed, and the next
  statement runs.
\<close>

definition get_model_body ::
  "'n pylib \<Rightarrow> 'n host \<Rightarrow> string \<Rightarrow> string \<Rightarrow> 'n pyval \<Rightarrow> 'n pyval \<Rightarrow> ('n, 'n estimator) comp" where
  "get_model_body lib h regression_type module alpha normalize' =
     bnd (lift (lookup_global h module)) (\<lambda>module_dict.
     bnd (act (arc_print (''Using input feature class and selected variables to establish ''
                @ regression_type @ '' Regression Model.''))) (\<lambda>_.
     bnd (lift (getattr module_dict regression_type)) (\<lambda>cls.
     bnd (lift cls) (\<lambda>regression_model s.
       let (m1, s1) =
             (case set_params lib regression_model ''alpha'' alpha of
                Inr m' \<Rightarrow> (m', s)
              | Inl e \<Rightarrow> (regression_model, py_print ''Did not set alpha in model...'' s));
           (m2, s2) =
             (case set_params lib m1 ''normalize'' normalize' of
                Inr m' \<Rightarrow> (m', s1)
              | Inl e \<Rightarrow> (m1, py_print ''Did not set normalize in model...'' s1))
       in (Inr m2, s2)))))"

definition get_model ::
  "'n pylib \<Rightarrow> 'n host \<Rightarrow> string \<Rightarrow> string \<Rightarrow> 'n pyval \<Rightarrow> 'n pyval \<Rightarrow> ('n, 'n estimator) comp" where
  "get_model = arc_tool_report get_model_body"

section \<open>The report builder: \<^verbatim>\<open>regression_summary\<close> (lines 68 to 116)\<close>

text \<open>\<^verbatim>\<open>sep.join(xs)\<close>.\<close>

fun join :: "string \<Rightarrow> string list \<Rightarrow> string" where
  "join sep [] = []"
| "join sep [x] = x"
| "join sep (x # y # ys) = x @ sep @ join sep (y # ys)"

text \<open>A step of a pure function that may raise.\<close>

definition andthen :: "exn + 'a \<Rightarrow> ('a \<Rightarrow> exn + 'b) \<Rightarrow> exn + 'b" where
  "andthen r f = (case r of Inl e \<Rightarrow> Inl e | Inr x \<Rightarrow> f x)"

text \<open>
  The terms of line 84 when \<^verbatim>\<open>coef_\<close> is a matrix: \<^verbatim>\<open>zip\<close> pairs its rows with the names,
  each row is rounded and formatted in turn, and the first \<^verbatim>\<open>round\<close> that raises ends the
  statement.
\<close>

fun round_rows :: "'n pylib \<Rightarrow> ('n list \<times> string) list \<Rightarrow> exn + string list" where
  "round_rows lib [] = Inr []"
| "round_rows lib ((row, nm) # rest) =
     andthen (round_row lib row 3) (\<lambda>r.
     andthen (round_rows lib rest) (\<lambda>ts.
     Inr ((str_vec lib r @ '' * '' @ nm) # ts)))"

text \<open>
  Lines 83 to 90: the coefficient line. \<^verbatim>\<open>len(coef_)\<close> is the number of coefficients of a
  vector and the number of rows of a matrix, and raises on a 0-d array.
\<close>

definition coefficient_line :: "'n pylib \<Rightarrow> string list \<Rightarrow> 'n ndarray \<Rightarrow> exn + string" where
  "coefficient_line lib regressor_names coef_arr =
     (case coef_arr of
        Arr0 x \<Rightarrow> Inl (Exn TypeError [''len() of unsized object''])
      | Arr1 cf \<Rightarrow>
          Inr (if length regressor_names = length cf
               then ''  Regression Coefficents:  ''
                      @ join '' + ''
                          (map (\<lambda>(c, nm). str_num lib (round_nd lib c 3) @ '' * '' @ nm)
                             (zip cf regressor_names))
               else ''  Regression Coefficents:  '' @ str_vec lib cf)
      | Arr2 rows \<Rightarrow>
          if length regressor_names = length rows
          then andthen (round_rows lib (zip rows regressor_names)) (\<lambda>ts.
               Inr (''  Regression Coefficents:  '' @ join '' + '' ts))
          else Inr (''  Regression Coefficents:  '' @ str_mat lib rows))"

text \<open>
  Lines 101 to 115: the \<^verbatim>\<open>try\<close> block with \<^verbatim>\<open>except: pass\<close>. The list is appended to in
  place, so a line appended before the exception stays in it.
\<close>

definition regressor_scores ::
  "'n pylib \<Rightarrow> string list \<Rightarrow> 'n ndarray \<Rightarrow> string list \<Rightarrow> 'n ndarray \<Rightarrow> string list" where
  "regressor_scores lib model_evaluation_list dependent_array regressor_names independents_array =
     (case shape0 independents_array of
        Inl e \<Rightarrow> model_evaluation_list
      | Inr rows \<Rightarrow>
     (case shape0 dependent_array of
        Inl e \<Rightarrow> model_evaluation_list
      | Inr n \<Rightarrow>
     if rows = n then
       (let l = model_evaluation_list @ [''REGRESSOR SCORES''] in
        case f_regression lib independents_array dependent_array of
          Inl e \<Rightarrow> l
        | Inr (f_regression_scores, p_values) \<Rightarrow>
            if length regressor_names = length p_values
            then l @ [''  Regressor F-Scores:     ''
                        @ str_pairs lib (zip regressor_names f_regression_scores),
                      ''  Regressor P-Values:     ''
                        @ str_pairs lib (zip regressor_names p_values)]
            else l @ [''  Regressor F-Scores:     '' @ str_vec lib f_regression_scores,
                      ''  Regressor P-Values:     '' @ str_vec lib p_values])
     else model_evaluation_list))"

text \<open>Reading an attribute that a fitted estimator has and an unfitted one lacks.\<close>

definition fitted_attr :: "'n estimator \<Rightarrow> string \<Rightarrow> 'a option \<Rightarrow> exn + 'a" where
  "fitted_attr m attr v =
     (case v of
        None \<Rightarrow>
          Inl (Exn AttributeError
            [[CHR 0x27] @ est_class m @ [CHR 0x27] @ '' object has no attribute ''
              @ [CHR 0x27] @ attr @ [CHR 0x27]])
      | Some x \<Rightarrow> Inr x)"

definition regression_summary_body ::
  "'n pylib \<Rightarrow> 'n estimator \<Rightarrow> 'n ndarray \<Rightarrow> 'n ndarray \<Rightarrow> string list \<Rightarrow> 'n ndarray
     \<Rightarrow> exn + string list" where
  "regression_summary_body lib regression_model dependent_array predicted_values regressor_names
       independents_array =
     (let l = [''REGRESSION MODEL: '' @ str_model lib regression_model, ''MODEL COEFFICENTS''] in
      andthen (fitted_attr regression_model ''coef_'' (coef regression_model)) (\<lambda>coef_arr.
      andthen (coefficient_line lib regressor_names coef_arr) (\<lambda>coefficient_text.
      let l = l @ [coefficient_text] in
      andthen (fitted_attr regression_model ''intercept_'' (intercept regression_model)) (\<lambda>b.
      let l = l @ [''  Regression Intercept:    '' @ str_num lib b, ''MODEL EVALUATION''] in
      andthen (r2_score lib dependent_array predicted_values) (\<lambda>r2.
      let l = l @ [''  Model Coefficent of Determination: '' @ str_num lib r2] in
      andthen (mean_squared_error lib dependent_array predicted_values) (\<lambda>mse.
      let l = l @ [''  Model Mean Squared Error:          '' @ str_num lib mse] in
      andthen (mean_absolute_error lib dependent_array predicted_values) (\<lambda>mae.
      let l = l @ [''  Model Mean Absolute Error:         '' @ str_num lib mae] in
      andthen (median_absolute_error lib dependent_array predicted_values) (\<lambda>medae.
      let l = l @ [''  Model Median Absolute Error:       '' @ str_num lib medae] in
      Inr (regressor_scores lib l dependent_array regressor_names
             independents_array)))))))))"

definition regression_summary ::
  "'n pylib \<Rightarrow> 'n estimator \<Rightarrow> 'n ndarray \<Rightarrow> 'n ndarray \<Rightarrow> string list \<Rightarrow> 'n ndarray
     \<Rightarrow> exn + string list" where
  "regression_summary = arc_tool_report regression_summary_body"

section \<open>The orchestrator: \<^verbatim>\<open>feature_class_sklearn_regression\<close> (lines 120 to 179)\<close>

subsection \<open>Files\<close>

text \<open>
  \<^verbatim>\<open>os.path.isdir(p)\<close>. The parameter \<^verbatim>\<open>output_dir\<close> defaults to \<^verbatim>\<open>None\<close>, and
  \<^verbatim>\<open>os.path.isdir(None)\<close> raises \<^verbatim>\<open>TypeError\<close> in Python 2.7 and in Python 3 (only
  \<^verbatim>\<open>OSError\<close> and \<^verbatim>\<open>ValueError\<close> are turned into \<^verbatim>\<open>False\<close>); the message is CPython 3's.
\<close>

definition os_path_isdir :: "string option \<Rightarrow> ('n, bool) comp" where
  "os_path_isdir p s =
     (case p of
        None \<Rightarrow>
          (Inl (Exn TypeError
             [''stat: path should be string, bytes, os.PathLike or integer, not NoneType'']), s)
      | Some d \<Rightarrow> (Inr (files s d = Some Dir), s))"

definition os_path_join :: "'n host \<Rightarrow> string option \<Rightarrow> string \<Rightarrow> exn + string" where
  "os_path_join h a b =
     (case a of
        None \<Rightarrow> Inl (Exn TypeError [''expected str, bytes or os.PathLike object, not NoneType''])
      | Some d \<Rightarrow> Inr (path_join h d b))"

definition os_path_exists :: "string \<Rightarrow> 'n world \<Rightarrow> bool" where
  "os_path_exists p s = (files s p \<noteq> None)"

text \<open>\<^verbatim>\<open>open(p, "w")\<close>: the file exists and is empty afterwards, whatever it held before.\<close>

definition open_write :: "'n host \<Rightarrow> string \<Rightarrow> ('n, string) comp" where
  "open_write h p s =
     (case open_w h p of
        Some e \<Rightarrow> (Inl e, s)
      | None \<Rightarrow> (Inr p, s\<lparr>files := (files s)(p \<mapsto> Text [])\<rparr>))"

definition os_remove :: "'n host \<Rightarrow> string \<Rightarrow> ('n, unit) comp" where
  "os_remove h p s =
     (case remove h p of
        Some e \<Rightarrow> (Inl e, s)
      | None \<Rightarrow> (Inr (), s\<lparr>files := (files s)(p := None)\<rparr>))"

definition joblib_dump :: "'n host \<Rightarrow> 'n estimator \<Rightarrow> string \<Rightarrow> ('n, unit) comp" where
  "joblib_dump h m p s =
     (case dump h m p of
        Some e \<Rightarrow> (Inl e, s)
      | None \<Rightarrow> (Inr (), s\<lparr>files := (files s)(p \<mapsto> Pickle m)\<rparr>))"

text \<open>
  \<^verbatim>\<open>text_report.write(x)\<close> on the file opened at \<open>p\<close>: the text grows by \<open>x\<close>. (The script
  never closes the file; the text is what the file holds once the interpreter has.)
\<close>

definition file_write :: "string \<Rightarrow> string \<Rightarrow> 'n world \<Rightarrow> 'n world" where
  "file_write p x s =
     (case files s p of
        Some (Text ls) \<Rightarrow> s\<lparr>files := (files s)(p \<mapsto> Text (ls @ [x]))\<rparr>
      | _ \<Rightarrow> s)"

text \<open>\<^verbatim>\<open>arcpy.da.ExtendTable\<close>: it raises, or the join is applied to the feature class.\<close>

definition extend_table ::
  "'n host \<Rightarrow> string \<Rightarrow> string \<Rightarrow> 'n sarray \<Rightarrow> string \<Rightarrow> ('n, unit) comp" where
  "extend_table h in_fc oid_field arr join_field s =
     (case ExtendTable h in_fc oid_field arr join_field of
        Some e \<Rightarrow> (Inl e, s)
      | None \<Rightarrow> (Inr (), s\<lparr>extended := extended s @ [(in_fc, oid_field, arr, join_field)]\<rparr>))"

subsection \<open>The body of the \<^verbatim>\<open>try\<close>\<close>

text \<open>
  Lines 127 to 157: read the columns, build and fit the model, join the predictions to the
  feature class, build the report. \<^verbatim>\<open>fit\<close> changes the estimator in place; here the fitted
  estimator is the one bound from then on.
\<close>

definition fit_and_report ::
  "'n pylib \<Rightarrow> 'n host \<Rightarrow> string \<Rightarrow> string \<Rightarrow> string \<Rightarrow> string list \<Rightarrow> 'n pyval \<Rightarrow> 'n pyval
     \<Rightarrow> ('n, 'n estimator \<times> string list) comp" where
  "fit_and_report lib h in_fc regression_model_type dependent_var independent_vars alpha
       normalize' =
     bnd (lift (Describe h in_fc)) (\<lambda>desc.
     let workspace = dirname h (catalogPath desc);
         objectid = ''OID@'' in
     bnd (act (arc_print (''Converting '' @ [CHR 0x27] @ name desc @ [CHR 0x27]
                @ '' feature class fields to numpy arrays.''))) (\<lambda>_.
     bnd (lift (FeatureClassToNumPyArray h in_fc [objectid, dependent_var]))
       (\<lambda>dependent_geoarray.
     bnd (lift (field dependent_geoarray dependent_var)) (\<lambda>dependent_array.
     bnd (lift (field dependent_geoarray objectid)) (\<lambda>oid_array.
     bnd (lift (FeatureClassToNumPyArray h in_fc independent_vars)) (\<lambda>independent_geoarray.
     bnd (lift (view_float64 h independent_geoarray)) (\<lambda>independent_array.
     bnd (get_model lib h regression_model_type ''linear_model'' alpha normalize')
       (\<lambda>regression_model.
     bnd (act (arc_print (''Fitting '' @ str_model lib regression_model @ '' model to data.'')))
       (\<lambda>_.
     bnd (lift (fit lib regression_model independent_array dependent_array))
       (\<lambda>regression_model.
     bnd (lift (predict lib regression_model independent_array)) (\<lambda>predicted_values.
     bnd (lift (ValidateFieldName h ''NPIndexJoin'' workspace)) (\<lambda>JoinField.
     bnd (lift (ValidateFieldName h ''PredictedValues'' workspace)) (\<lambda>PredictedField.
     bnd (lift (np_array h oid_array predicted_values JoinField PredictedField))
       (\<lambda>final_predicted_array.
     bnd (act (arc_print ''Extending Prediction Fields to Output Feature Class.'')) (\<lambda>_.
     bnd (extend_table h in_fc (OIDFieldName desc) final_predicted_array JoinField) (\<lambda>_.
     bnd (lift (regression_summary lib regression_model dependent_array predicted_values
                  independent_vars independent_array)) (\<lambda>regession_report.
     ret (regression_model, regession_report))))))))))))))))))"

text \<open>Lines 169 to 172: every report line is logged, and written when the directory is valid.\<close>

fun report_loop :: "bool \<Rightarrow> string \<Rightarrow> string list \<Rightarrow> 'n world \<Rightarrow> 'n world" where
  "report_loop valid text_report [] s = s"
| "report_loop valid text_report (report # rest) s =
     report_loop valid text_report rest
       (let s1 = arc_print report s
        in if valid then file_write text_report (report @ [CHR 0x0A]) s1 else s1)"

text \<open>
  Lines 158 to 175. \<open>text_report\<close> is the path of the file opened at line 163; it is bound
  only when the directory is valid, and read only then.
\<close>

definition output_report ::
  "'n host \<Rightarrow> string \<Rightarrow> string option \<Rightarrow> 'n estimator \<Rightarrow> string list \<Rightarrow> ('n, unit) comp" where
  "output_report h regression_model_type output_dir regression_model regession_report =
     bnd (os_path_isdir output_dir) (\<lambda>valid_output_file_directory.
     bnd (if valid_output_file_directory then
            bnd (act (arc_print ''Outputing Report and Pickled model to valid directory.''))
              (\<lambda>_.
            let report_name = regression_model_type @ ''_Report.txt'' in
            bnd (lift (os_path_join h output_dir report_name)) (\<lambda>report_path.
            bnd (open_write h report_path) (\<lambda>text_report.
            let model_name = regression_model_type @ ''_Model.pkl'' in
            bnd (lift (os_path_join h output_dir model_name)) (\<lambda>model_path.
            bnd (\<lambda>s. if os_path_exists model_path s then os_remove h model_path s
                      else (Inr (), s)) (\<lambda>_.
            bnd (joblib_dump h regression_model model_path) (\<lambda>_.
            ret text_report))))))
          else ret []) (\<lambda>text_report.
     bnd (act (report_loop valid_output_file_directory text_report regession_report)) (\<lambda>_.
     act (arc_print ''Script Completed Successfully.''))))"

definition try_body ::
  "'n pylib \<Rightarrow> 'n host \<Rightarrow> string \<Rightarrow> string \<Rightarrow> string \<Rightarrow> string list \<Rightarrow> 'n pyval \<Rightarrow> 'n pyval
     \<Rightarrow> string option \<Rightarrow> ('n, unit) comp" where
  "try_body lib h in_fc regression_model_type dependent_var independent_vars alpha normalize'
       output_dir =
     bnd (fit_and_report lib h in_fc regression_model_type dependent_var independent_vars alpha
            normalize')
       (\<lambda>(regression_model, regession_report).
     output_report h regression_model_type output_dir regression_model regession_report)"

subsection \<open>The handlers (lines 176 to 179)\<close>

text \<open>
  The result is the exception that reaches the caller, if any, and the world left behind.
  \<^verbatim>\<open>except arcpy.ExecuteError\<close> reports \<^verbatim>\<open>arcpy.GetMessages(2)\<close>; \<^verbatim>\<open>except Exception as e\<close>
  reports \<^verbatim>\<open>e.args[0]\<close>, and indexing an empty \<^verbatim>\<open>args\<close> raises \<^verbatim>\<open>IndexError\<close> out of the
  handler; an exception that is not an \<^verbatim>\<open>Exception\<close> passes both clauses.
\<close>

definition feature_class_sklearn_regression ::
  "'n pylib \<Rightarrow> 'n host \<Rightarrow> string \<Rightarrow> string \<Rightarrow> string \<Rightarrow> string list \<Rightarrow> 'n pyval \<Rightarrow> 'n pyval
     \<Rightarrow> string option \<Rightarrow> 'n world \<Rightarrow> exn option \<times> 'n world" where
  "feature_class_sklearn_regression lib h in_fc regression_model_type dependent_var
       independent_vars alpha normalize' output_dir s =
     (case try_body lib h in_fc regression_model_type dependent_var independent_vars alpha
             normalize' output_dir s of
        (Inr _, s') \<Rightarrow> (None, s')
      | (Inl e, s') \<Rightarrow>
          if exn_cls e = ExecuteError then (None, arc_print (GetMessages h 2) s')
          else if is_Exception (exn_cls e) then
            (case exn_args e of
               [] \<Rightarrow> (Some (Exn IndexError [''tuple index out of range'']), s')
             | a # _ \<Rightarrow> (None, arc_print a s'))
          else (Some e, s'))"

section \<open>A worked example\<close>

text \<open>
  A small world on which the definitions can be run. Numbers are rationals, standing in for
  floating-point numbers with exact arithmetic. The feature class \<^verbatim>\<open>parcels\<close> has the columns
  \<^verbatim>\<open>y = [1,2,2,1]\<close>, \<^verbatim>\<open>x1 = [1,2,3,4]\<close> and \<^verbatim>\<open>x2 = [1,0,1,0]\<close>; both features are
  uncorrelated with \<^verbatim>\<open>y\<close>, so that every number of the report is rational. The module
  \<^verbatim>\<open>linear_model\<close> has two estimator classes, one that has a parameter \<^verbatim>\<open>alpha\<close> and one that
  has not. The theorems of the later sections hold for every library and host; only the runs
  at concrete inputs use this one.
\<close>

fun str_nat :: "nat \<Rightarrow> string" where
  "str_nat n =
     (if n < 10 then [''0123456789'' ! n]
      else str_nat (n div 10) @ [''0123456789'' ! (n mod 10)])"

text \<open>The decimals of a fraction \<open>0 \<le> r < 1\<close>, at least one and at most \<open>k\<close> of them.\<close>

fun frac_digits :: "nat \<Rightarrow> rat \<Rightarrow> string" where
  "frac_digits k r =
     (if k = 0 then []
      else (let d = nat \<lfloor>r * 10\<rfloor>; r' = r * 10 - of_nat d
            in (''0123456789'' ! d) # (if r' = 0 then [] else frac_digits (k - 1) r')))"

declare frac_digits.simps [simp del]

text \<open>\<^verbatim>\<open>str\<close> of a number, as for a float: \<^verbatim>\<open>1.0\<close>, \<^verbatim>\<open>-2.0\<close>, \<^verbatim>\<open>0.25\<close>.\<close>

definition str_rat :: "rat \<Rightarrow> string" where
  "str_rat q =
     (let a = \<bar>q\<bar>; i = nat \<lfloor>a\<rfloor>
      in (if q < 0 then ''-'' else []) @ str_nat i @ ''.'' @ frac_digits 16 (a - of_nat i))"

text \<open>\<^verbatim>\<open>round(x, ndigits)\<close>: to the nearest multiple of \<open>10\<close> to the \<open>- ndigits\<close>, ties to even.\<close>

definition round_rat :: "rat \<Rightarrow> nat \<Rightarrow> rat" where
  "round_rat x ndigits =
     (let y = x * 10 ^ ndigits; f = \<lfloor>y\<rfloor>; d = y - of_int f
      in of_int (if d < 1 / 2 then f else if 1 / 2 < d then f + 1
                 else if even f then f else f + 1) / 10 ^ ndigits)"

text \<open>
  \<^verbatim>\<open>BaseEstimator.set_params\<close> of scikit-learn: a name that is not a parameter of the
  estimator raises \<^verbatim>\<open>ValueError\<close>, a parameter is set.
\<close>

definition sk_set_params :: "rat estimator \<Rightarrow> string \<Rightarrow> rat pyval \<Rightarrow> exn + rat estimator" where
  "sk_set_params m k v =
     (if map_of (est_params m) k = None
      then Inl (Exn ValueError [''Invalid parameter '' @ k @ '' for estimator '' @ est_class m])
      else Inr (m\<lparr>est_params := map (\<lambda>(k', v'). if k' = k then (k', v) else (k', v'))
                                    (est_params m)\<rparr>))"

definition LinearRegression :: "rat estimator" where
  "LinearRegression =
     \<lparr>est_class = ''LinearRegression'',
      est_params = [(''copy_X'', PyBool True), (''fit_intercept'', PyBool True),
                    (''n_jobs'', PyNone), (''normalize'', PyBool False)],
      coef = None, intercept = None\<rparr>"

definition Ridge :: "rat estimator" where
  "Ridge =
     \<lparr>est_class = ''Ridge'',
      est_params = [(''alpha'', PyNum 1), (''fit_intercept'', PyBool True),
                    (''normalize'', PyBool False)],
      coef = None, intercept = None\<rparr>"

text \<open>
  \<^verbatim>\<open>fit\<close> wants a matrix of features with as many rows as there are targets. Its answer is
  not computed: it is the least-squares solution for the data of the example, where the
  features are uncorrelated with the target, so the coefficients are \<open>0\<close> and the intercept is
  the mean \<open>3/2\<close> of \<^verbatim>\<open>y\<close>.
\<close>

definition sk_fit :: "rat estimator \<Rightarrow> rat ndarray \<Rightarrow> rat ndarray \<Rightarrow> exn + rat estimator" where
  "sk_fit m X y =
     (case X of
        Arr2 rows \<Rightarrow>
          if shape0 y = Inr (length rows)
          then Inr (m\<lparr>coef := Some (Arr1 [0, 0]), intercept := Some (3 / 2)\<rparr>)
          else Inl (Exn ValueError [''Found input variables with inconsistent numbers of samples''])
      | _ \<Rightarrow> Inl (Exn ValueError [''Expected 2D array, got 1D array instead'']))"

text \<open>The linear predictor: for each row, the coefficients times the row, plus the intercept.\<close>

definition sk_predict :: "rat estimator \<Rightarrow> rat ndarray \<Rightarrow> exn + rat ndarray" where
  "sk_predict m X =
     (case (coef m, intercept m, X) of
        (Some (Arr1 c), Some b, Arr2 rows) \<Rightarrow>
          Inr (Arr1 (map (\<lambda>r. sum_list (map (\<lambda>(a, x). a * x) (zip c r)) + b) rows))
      | _ \<Rightarrow> Inl (Exn ValueError [''not fitted, or not a matrix'']))"

text \<open>
  The metrics of \<^verbatim>\<open>sklearn.metrics\<close>. The targets are checked first: as many predictions as
  true values, at least one, and as many outputs; a vector is one output, a matrix has one
  per column. Each metric is computed per output and averaged over the outputs.
\<close>

fun outputs :: "rat ndarray \<Rightarrow> rat list list" where
  "outputs (Arr0 x) = [[x]]"
| "outputs (Arr1 xs) = [xs]"
| "outputs (Arr2 rows) = transpose rows"

definition check_reg_targets ::
  "rat ndarray \<Rightarrow> rat ndarray \<Rightarrow> exn + (rat list \<times> rat list) list" where
  "check_reg_targets y_true y_pred =
     (case (shape0 y_true, shape0 y_pred) of
        (Inr n, Inr k) \<Rightarrow>
          if n \<noteq> k
          then Inl (Exn ValueError
                 [''Found input variables with inconsistent numbers of samples: [''
                    @ str_nat n @ '', '' @ str_nat k @ '']''])
          else if n = 0
          then Inl (Exn ValueError [''Found array with 0 sample(s) while a minimum of 1 is required.''])
          else if length (outputs y_true) \<noteq> length (outputs y_pred)
          then Inl (Exn ValueError [''y_true and y_pred have different number of output''])
          else Inr (zip (outputs y_true) (outputs y_pred))
      | _ \<Rightarrow>
          Inl (Exn TypeError [''Singleton array cannot be considered a valid collection.'']))"

definition mean :: "rat list \<Rightarrow> rat" where
  "mean xs = sum_list xs / of_nat (length xs)"

definition median :: "rat list \<Rightarrow> rat" where
  "median xs =
     (let s = sort xs; n = length s
      in if even n then (s ! (n div 2 - 1) + s ! (n div 2)) / 2 else s ! (n div 2))"

definition abs_errors :: "rat list \<Rightarrow> rat list \<Rightarrow> rat list" where
  "abs_errors ys ps = map (\<lambda>(y, p). \<bar>y - p\<bar>) (zip ys ps)"

definition sq_errors :: "rat list \<Rightarrow> rat list \<Rightarrow> rat list" where
  "sq_errors ys ps = map (\<lambda>(y, p). (y - p) * (y - p)) (zip ys ps)"

text \<open>\<open>1 - SS_res / SS_tot\<close>; for a constant target, \<open>1\<close> if the prediction is exact, else \<open>0\<close>.\<close>

definition r2_output :: "rat list \<Rightarrow> rat list \<Rightarrow> rat" where
  "r2_output ys ps =
     (let ss_res = sum_list (sq_errors ys ps);
          ss_tot = sum_list (map (\<lambda>y. (y - mean ys) * (y - mean ys)) ys)
      in if ss_tot \<noteq> 0 then 1 - ss_res / ss_tot else if ss_res \<noteq> 0 then 0 else 1)"

definition sk_metric ::
  "(rat list \<Rightarrow> rat list \<Rightarrow> rat) \<Rightarrow> rat ndarray \<Rightarrow> rat ndarray \<Rightarrow> exn + rat" where
  "sk_metric per_output y_true y_pred =
     andthen (check_reg_targets y_true y_pred) (\<lambda>cols.
     Inr (mean (map (\<lambda>(ys, ps). per_output ys ps) cols)))"

text \<open>
  \<^verbatim>\<open>f_regression\<close> wants a matrix of features and a vector of targets. Its answer is not
  computed either: the features of the example are uncorrelated with the target, for which
  the F-score is \<open>0\<close> and the p-value is \<open>1\<close>.
\<close>

definition sk_f_regression :: "rat ndarray \<Rightarrow> rat ndarray \<Rightarrow> exn + rat list \<times> rat list" where
  "sk_f_regression X y =
     (case (X, y) of
        (Arr2 rows, Arr1 ys) \<Rightarrow>
          Inr (map (\<lambda>_. 0) (hd (rows @ [[]])), map (\<lambda>_. 1) (hd (rows @ [[]])))
      | (Arr2 rows, _) \<Rightarrow> Inl (Exn ValueError [''y should be a 1d array''])
      | _ \<Rightarrow> Inl (Exn ValueError [''Expected 2D array, got 1D array instead'']))"

text \<open>
  The library of the example. \<^verbatim>\<open>round\<close> of a 1-d array raises, as it does in Python 3.
\<close>

definition demo_lib :: "rat pylib" where
  "demo_lib =
     \<lparr>str_model = (\<lambda>m. est_class m @ ''()''),
      str_num = str_rat,
      str_vec = (\<lambda>xs. ''['' @ join '' '' (map str_rat xs) @ '']''),
      str_mat = (\<lambda>rows. ''['' @ join [CHR 0x0A, CHR '' '']
                            (map (\<lambda>xs. ''['' @ join '' '' (map str_rat xs) @ '']'') rows) @ '']''),
      str_pairs = (\<lambda>ps. ''['' @ join '', '' (map (\<lambda>(k, x). ''('' @ [CHR 0x27] @ k @ [CHR 0x27]
                            @ '', '' @ str_rat x @ '')'') ps) @ '']''),
      round_nd = round_rat,
      round_row = (\<lambda>row ndigits. Inl (Exn TypeError
                     [''type numpy.ndarray doesn'' @ [CHR 0x27] @ ''t define __round__ method''])),
      set_params = sk_set_params,
      fit = sk_fit,
      predict = sk_predict,
      r2_score = sk_metric r2_output,
      mean_squared_error = sk_metric (\<lambda>ys ps. mean (sq_errors ys ps)),
      mean_absolute_error = sk_metric (\<lambda>ys ps. mean (abs_errors ys ps)),
      median_absolute_error = sk_metric (\<lambda>ys ps. median (abs_errors ys ps)),
      f_regression = sk_f_regression\<rparr>"

definition demo_table :: "rat sarray" where
  "demo_table =
     [(''OID@'', [1, 2, 3, 4]), (''y'', [1, 2, 2, 1]),
      (''x1'', [1, 2, 3, 4]), (''x2'', [1, 0, 1, 0])]"

text \<open>
  The host of the example. The view of line 140 is a matrix with one column per field when
  there are two fields or more; with a single field it is a 1-d array, which \<^verbatim>\<open>fit\<close> rejects.
\<close>

definition demo_host :: "rat host" where
  "demo_host =
     \<lparr>globals = map_of
        [(''linear_model'',
          \<lparr>ns_name = ''sklearn.linear_model'',
           ns_attrs = map_of [(''LinearRegression'', Inr LinearRegression),
                              (''Ridge'', Inr Ridge)]\<rparr>)],
      Describe = (\<lambda>fc.
        if fc = ''parcels''
        then Inr \<lparr>OIDFieldName = ''OBJECTID'', catalogPath = ''C:/gis/city.gdb/parcels'',
                  name = ''parcels''\<rparr>
        else Inl (Exn OSError [fc @ '' does not exist''])),
      dirname = (\<lambda>p. rev (tl (dropWhile (\<lambda>c. c \<noteq> CHR ''/'') (rev p)))),
      FeatureClassToNumPyArray = (\<lambda>fc fields.
        if list_all (\<lambda>f. map_of demo_table f \<noteq> None) fields
        then Inr (List.map_filter (\<lambda>f. map_option (Pair f) (map_of demo_table f)) fields)
        else Inl (Exn RuntimeError [''A column was specified that does not exist.''])),
      view_float64 = (\<lambda>a.
        case map snd a of
          [col] \<Rightarrow> Inr (Arr1 col)
        | cols \<Rightarrow> Inr (Arr2 (transpose cols))),
      ValidateFieldName = (\<lambda>nm workspace. Inr nm),
      np_array = (\<lambda>a b join_field predicted_field.
        case (a, b) of
          (Arr1 xs, Arr1 ys) \<Rightarrow> Inr [(join_field, xs), (predicted_field, ys)]
        | _ \<Rightarrow> Inl (Exn ValueError [''setting an array element with a sequence.''])),
      ExtendTable = (\<lambda>fc oid_field arr join_field. None),
      GetMessages = (\<lambda>severity. ''ERROR 000732: Dataset does not exist or is not supported''),
      path_join = (\<lambda>a b. a @ ''/'' @ b),
      open_w = (\<lambda>p. None),
      remove = (\<lambda>p. None),
      dump = (\<lambda>m p. None)\<rparr>"

text \<open>The world before the run: nothing logged, one directory, no files.\<close>

definition demo_world :: "rat world" where
  "demo_world = \<lparr>messages = [], stdout = [], files = map_of [(''C:/out'', Dir)], extended = []\<rparr>"

text \<open>
  What the run on \<^verbatim>\<open>parcels\<close> with \<^verbatim>\<open>LinearRegression\<close> and the features \<^verbatim>\<open>x1\<close>, \<^verbatim>\<open>x2\<close>
  has produced when line 157 is reached: the fitted model, the report, and the world
  (\<^verbatim>\<open>alpha\<close> is not a parameter of \<^verbatim>\<open>LinearRegression\<close>, so line 60 has printed).
\<close>

definition demo_fitted :: "rat estimator" where
  "demo_fitted = LinearRegression\<lparr>coef := Some (Arr1 [0, 0]), intercept := Some (3 / 2)\<rparr>"

definition demo_report :: "string list" where
  "demo_report =
     [''REGRESSION MODEL: LinearRegression()'', ''MODEL COEFFICENTS'',
      ''  Regression Coefficents:  0.0 * x1 + 0.0 * x2'', ''  Regression Intercept:    1.5'',
      ''MODEL EVALUATION'', ''  Model Coefficent of Determination: 0.0'',
      ''  Model Mean Squared Error:          0.25'', ''  Model Mean Absolute Error:         0.5'',
      ''  Model Median Absolute Error:       0.5'', ''REGRESSOR SCORES'',
      ''  Regressor F-Scores:     [('' @ [CHR 0x27] @ ''x1'' @ [CHR 0x27] @ '', 0.0), (''
         @ [CHR 0x27] @ ''x2'' @ [CHR 0x27] @ '', 0.0)]'',
      ''  Regressor P-Values:     [('' @ [CHR 0x27] @ ''x1'' @ [CHR 0x27] @ '', 1.0), (''
         @ [CHR 0x27] @ ''x2'' @ [CHR 0x27] @ '', 1.0)]'']"

definition demo_after_fit :: "rat world" where
  "demo_after_fit =
     demo_world
       \<lparr>messages :=
          [''Converting '' @ [CHR 0x27] @ ''parcels'' @ [CHR 0x27]
             @ '' feature class fields to numpy arrays.'',
           ''Using input feature class and selected variables to establish LinearRegression Regression Model.'',
           ''Fitting LinearRegression() model to data.'',
           ''Extending Prediction Fields to Output Feature Class.''],
        stdout := [''Did not set alpha in model...''],
        extended :=
          [(''parcels'', ''OBJECTID'',
            [(''NPIndexJoin'', [1, 2, 3, 4]),
             (''PredictedValues'', [3 / 2, 3 / 2, 3 / 2, 3 / 2])],
            ''NPIndexJoin'')]\<rparr>"

section \<open>Statement sequences\<close>

lemma bnd_lift_Inl: "bnd (lift (Inl e)) f s = (Inl e, s)"
  by (simp add: bnd_def lift_def)

lemma bnd_lift_Inr: "bnd (lift (Inr x)) f s = f x s"
  by (simp add: bnd_def lift_def)

lemma bnd_act: "bnd (act g) f s = f () (g s)"
  by (simp add: bnd_def act_def)

lemma bnd_ret: "bnd (ret x) f s = f x s"
  by (simp add: bnd_def ret_def)

lemmas bnd_simps = bnd_lift_Inl bnd_lift_Inr bnd_act bnd_ret

lemma bnd_raises_first:
  "isl (fst (m s)) \<Longrightarrow> isl (fst (bnd m f s))"
  by (auto simp: bnd_def split: prod.splits sum.splits)

lemma bnd_raises_rest:
  "(\<And>x s'. isl (fst (f x s'))) \<Longrightarrow> isl (fst (bnd m f s))"
  by (auto simp: bnd_def split: prod.splits sum.splits)

lemma keeps_files_bnd:
  assumes "keeps_files m" and "\<And>x. keeps_files (f x)"
  shows "keeps_files (bnd m f)"
  unfolding keeps_files_def
proof
  fix s
  show "files (snd (bnd m f s)) = files s"
  proof (cases "m s")
    case (Pair r s')
    with assms(1) have s': "files s' = files s"
      by (metis keeps_files_def snd_conv)
    show ?thesis
    proof (cases r)
      case (Inl e)
      with Pair s' show ?thesis by (simp add: bnd_def)
    next
      case (Inr x)
      with Pair s' assms(2) [of x] show ?thesis
        by (simp add: bnd_def keeps_files_def)
    qed
  qed
qed

lemma keeps_files_basic:
  "keeps_files (lift r)"
  "keeps_files (ret x)"
  "keeps_files (act (arc_print msg))"
  "keeps_files (extend_table h in_fc oid_field arr join_field)"
  by (simp_all add: keeps_files_def lift_def ret_def act_def arc_print_def extend_table_def
        split: option.splits)

section \<open>The report builder\<close>


text \<open>
  The three ways through the block: the row counts differ and nothing is appended; they agree
  and \<^verbatim>\<open>f_regression\<close> returns, and the header and two lines are appended; they agree and
  \<^verbatim>\<open>f_regression\<close> raises, and the header alone is left in the list.
\<close>

lemma regressor_scores_absent:
  assumes "shape0 indep = Inr r" and "shape0 dep = Inr n" and "r \<noteq> n"
  shows "regressor_scores lib l dep names indep = l"
  using assms by (simp add: regressor_scores_def)

lemma regressor_scores_appended:
  assumes "shape0 indep = Inr n" and "shape0 dep = Inr n"
    and "f_regression lib indep dep = Inr (fs, ps)"
  shows "\<exists>f_line p_line.
           regressor_scores lib l dep names indep = l @ [''REGRESSOR SCORES'', f_line, p_line]"
  using assms by (auto simp: regressor_scores_def Let_def)

lemma regressor_scores_dangling:
  assumes "shape0 indep = Inr n" and "shape0 dep = Inr n" and "f_regression lib indep dep = Inl e"
  shows "regressor_scores lib l dep names indep = l @ [''REGRESSOR SCORES'']"
  using assms by (simp add: regressor_scores_def)


lemma regression_summary_fitted:
  assumes "coef m = Some c" and "coefficient_line lib names c = Inr line"
    and "intercept m = Some b"
    and "r2_score lib dep pred = Inr r2" and "mean_squared_error lib dep pred = Inr mse"
    and "mean_absolute_error lib dep pred = Inr mae"
    and "median_absolute_error lib dep pred = Inr medae"
  shows "regression_summary lib m dep pred names indep =
         Inr (regressor_scores lib
             [''REGRESSION MODEL: '' @ str_model lib m, ''MODEL COEFFICENTS'', line,
              ''  Regression Intercept:    '' @ str_num lib b, ''MODEL EVALUATION'',
              ''  Model Coefficent of Determination: '' @ str_num lib r2,
              ''  Model Mean Squared Error:          '' @ str_num lib mse,
              ''  Model Mean Absolute Error:         '' @ str_num lib mae,
              ''  Model Median Absolute Error:       '' @ str_num lib medae]
             dep names indep)"
  using assms
  by (simp add: regression_summary_def arc_tool_report_def regression_summary_body_def
        andthen_def fitted_attr_def Let_def)



text \<open>Computing the decimals of a number, one digit at a time.\<close>

lemma floor_rat_numeral_div:
  "\<lfloor>numeral a / numeral b :: rat\<rfloor> = numeral a div numeral b"
  using floor_divide_of_int_eq [of "numeral a" "numeral b", where ?'a = rat] by simp

lemma floor_rat_one_div:
  "\<lfloor>1 / numeral b :: rat\<rfloor> = 1 div numeral b"
  using floor_divide_of_int_eq [of 1 "numeral b", where ?'a = rat] by simp

lemma frac_digits_last:
  assumes "k \<noteq> 0" and "r * 10 - of_nat (nat \<lfloor>r * 10\<rfloor>) = 0"
  shows "frac_digits k r = [''0123456789'' ! nat \<lfloor>r * 10\<rfloor>]"
  using assms by (subst frac_digits.simps) (simp add: Let_def)

lemma frac_digits_next:
  assumes "k \<noteq> 0" and "r * 10 - of_nat (nat \<lfloor>r * 10\<rfloor>) \<noteq> 0"
  shows "frac_digits k r =
           (''0123456789'' ! nat \<lfloor>r * 10\<rfloor>)
             # frac_digits (k - 1) (r * 10 - of_nat (nat \<lfloor>r * 10\<rfloor>))"
  using assms by (subst frac_digits.simps) (simp add: Let_def)

text \<open>Unfolding the definitions of the worked example.\<close>

lemmas demo_eval = regression_summary_def arc_tool_report_def regression_summary_body_def
  andthen_def fitted_attr_def Let_def demo_lib_def regressor_scores_def
  sk_f_regression_def coefficient_line_def str_rat_def frac_digits_last frac_digits_next
  floor_rat_numeral_div floor_rat_one_div
  round_rat_def Ridge_def
  LinearRegression_def sk_metric_def check_reg_targets_def mean_def median_def
  abs_errors_def sq_errors_def r2_output_def

lemmas demo_host_eval = demo_host_def demo_table_def field_def sk_predict_def sk_set_params_def
  sk_fit_def get_model_def get_model_body_def lookup_global_def getattr_def extend_table_def
  py_print_def arc_print_def bnd_def lift_def act_def ret_def demo_world_def



text \<open>
  Claim C10. The report builder needs a fitted model. If the model has no \<^verbatim>\<open>coef_\<close> the
  call raises \<^verbatim>\<open>AttributeError\<close> at line 83; if it has \<^verbatim>\<open>coef_\<close> but no \<^verbatim>\<open>intercept_\<close> it
  raises as well, and what it raises is the \<^verbatim>\<open>AttributeError\<close> of line 91 whenever the
  coefficient line of lines 83 to 90 can be rendered; in both cases no report is returned. If
  the model has both attributes, no attribute access fails: whatever the call then raises
  has been raised while rendering the coefficient line or by one of the four metric
  functions.
\<close>

theorem regression_summary_requires_fitted:
  "(coef m = None \<longrightarrow>
      regression_summary lib m dep pred names indep =
        Inl (Exn AttributeError
              [[CHR 0x27] @ est_class m @ [CHR 0x27] @ '' object has no attribute ''
                @ [CHR 0x27] @ ''coef_'' @ [CHR 0x27]]))
   \<and> (coef m \<noteq> None \<and> intercept m = None \<longrightarrow>
        (\<exists>e. regression_summary lib m dep pred names indep = Inl e))
   \<and> (\<forall>c. coef m = Some c \<and> intercept m = None \<longrightarrow>
        (\<forall>line. coefficient_line lib names c = Inr line \<longrightarrow>
          regression_summary lib m dep pred names indep =
            Inl (Exn AttributeError
                  [[CHR 0x27] @ est_class m @ [CHR 0x27] @ '' object has no attribute ''
                    @ [CHR 0x27] @ ''intercept_'' @ [CHR 0x27]])))
   \<and> (\<forall>c. coef m = Some c \<and> intercept m \<noteq> None \<longrightarrow>
        (\<forall>e. regression_summary lib m dep pred names indep = Inl e \<longrightarrow>
               coefficient_line lib names c = Inl e
             \<or> r2_score lib dep pred = Inl e \<or> mean_squared_error lib dep pred = Inl e
             \<or> mean_absolute_error lib dep pred = Inl e
             \<or> median_absolute_error lib dep pred = Inl e))"
  by (auto simp: regression_summary_def arc_tool_report_def regression_summary_body_def
        andthen_def fitted_attr_def Let_def split: sum.splits)

text \<open>
  Witness for C10: an unfitted \<^verbatim>\<open>LinearRegression\<close>; one with coefficients only; a fitted one
  given three predictions for four true values, which the metrics reject; and a fitted one
  whose \<^verbatim>\<open>coef_\<close> is a matrix with as many rows as there are names, where line 84 raises.
\<close>

theorem regression_summary_requires_fitted_witness:
  "regression_summary demo_lib LinearRegression (Arr1 [1, 2, 3, 4]) (Arr1 [1, 2, 3, 4]) [''x'']
       (Arr2 [[1], [2], [3], [4]])
     = Inl (Exn AttributeError
         [[CHR 0x27] @ ''LinearRegression'' @ [CHR 0x27] @ '' object has no attribute ''
            @ [CHR 0x27] @ ''coef_'' @ [CHR 0x27]])
   \<and> regression_summary demo_lib (LinearRegression\<lparr>coef := Some (Arr1 [1])\<rparr>)
       (Arr1 [1, 2, 3, 4]) (Arr1 [1, 2, 3, 4]) [''x''] (Arr2 [[1], [2], [3], [4]])
     = Inl (Exn AttributeError
         [[CHR 0x27] @ ''LinearRegression'' @ [CHR 0x27] @ '' object has no attribute ''
            @ [CHR 0x27] @ ''intercept_'' @ [CHR 0x27]])
   \<and> regression_summary demo_lib
       (LinearRegression\<lparr>coef := Some (Arr1 [1]), intercept := Some 0\<rparr>)
       (Arr1 [1, 2, 3, 4]) (Arr1 [1, 2, 3]) [''x''] (Arr2 [[1], [2], [3], [4]])
     = Inl (Exn ValueError
         [''Found input variables with inconsistent numbers of samples: [4, 3]''])
   \<and> r2_score demo_lib (Arr1 [1, 2, 3, 4]) (Arr1 [1, 2, 3])
     = Inl (Exn ValueError
         [''Found input variables with inconsistent numbers of samples: [4, 3]''])
   \<and> regression_summary demo_lib
       (LinearRegression\<lparr>coef := Some (Arr2 [[1, 2]]), intercept := Some 0\<rparr>)
       (Arr1 [1, 2, 3, 4]) (Arr1 [1, 2, 3, 4]) [''x''] (Arr2 [[1], [2], [3], [4]])
     = Inl (Exn TypeError
         [''type numpy.ndarray doesn'' @ [CHR 0x27] @ ''t define __round__ method''])
   \<and> coefficient_line demo_lib [''x''] (Arr2 [[1, 2]])
     = Inl (Exn TypeError
         [''type numpy.ndarray doesn'' @ [CHR 0x27] @ ''t define __round__ method''])"
proof -
  let ?u = "LinearRegression\<lparr>coef := Some (Arr1 [1])\<rparr>"
  let ?f = "LinearRegression\<lparr>coef := Some (Arr1 [1]), intercept := Some 0\<rparr>"
  have 1: "coef LinearRegression = None"
    and 2: "coef ?u = Some (Arr1 [1]) \<and> intercept ?u = None"
    and 3: "est_class LinearRegression = ''LinearRegression''"
    and 4: "coef ?f = Some (Arr1 [1]) \<and> intercept ?f \<noteq> None"
    by (simp_all add: LinearRegression_def)
  have 5: "coefficient_line demo_lib [''x''] (Arr1 [1]) = Inr ''  Regression Coefficents:  1.0 * x''"
    by (simp add: coefficient_line_def demo_lib_def str_rat_def frac_digits_last round_rat_def)
  have 6: "regression_summary demo_lib ?f (Arr1 [1, 2, 3, 4]) (Arr1 [1, 2, 3]) [''x'']
             (Arr2 [[1], [2], [3], [4]])
     = Inl (Exn ValueError
         [''Found input variables with inconsistent numbers of samples: [4, 3]''])"
    by (simp add: demo_eval)
  have 7: "r2_score demo_lib (Arr1 [1, 2, 3, 4]) (Arr1 [1, 2, 3])
     = Inl (Exn ValueError
         [''Found input variables with inconsistent numbers of samples: [4, 3]''])"
    by (simp add: demo_lib_def sk_metric_def check_reg_targets_def andthen_def)
  note a = regression_summary_requires_fitted
         [of LinearRegression demo_lib "Arr1 [1, 2, 3, 4]" "Arr1 [1, 2, 3, 4]" "[''x'']"
             "Arr2 [[1], [2], [3], [4]]"]
  note b = regression_summary_requires_fitted
         [of ?u demo_lib "Arr1 [1, 2, 3, 4]" "Arr1 [1, 2, 3, 4]" "[''x'']"
             "Arr2 [[1], [2], [3], [4]]"]
  note c = regression_summary_requires_fitted
         [of ?f demo_lib "Arr1 [1, 2, 3, 4]" "Arr1 [1, 2, 3]" "[''x'']"
             "Arr2 [[1], [2], [3], [4]]"]
  from a 1 3 have A: "regression_summary demo_lib LinearRegression (Arr1 [1, 2, 3, 4])
       (Arr1 [1, 2, 3, 4]) [''x''] (Arr2 [[1], [2], [3], [4]])
     = Inl (Exn AttributeError
         [[CHR 0x27] @ ''LinearRegression'' @ [CHR 0x27] @ '' object has no attribute ''
            @ [CHR 0x27] @ ''coef_'' @ [CHR 0x27]])"
    by simp
  from b 2 5 3 have B: "regression_summary demo_lib ?u
       (Arr1 [1, 2, 3, 4]) (Arr1 [1, 2, 3, 4]) [''x''] (Arr2 [[1], [2], [3], [4]])
     = Inl (Exn AttributeError
         [[CHR 0x27] @ ''LinearRegression'' @ [CHR 0x27] @ '' object has no attribute ''
            @ [CHR 0x27] @ ''intercept_'' @ [CHR 0x27]])"
    by (simp add: LinearRegression_def)
  let ?g = "LinearRegression\<lparr>coef := Some (Arr2 [[1, 2]]), intercept := Some 0\<rparr>"
  have 8: "coef ?g = Some (Arr2 [[1, 2]]) \<and> intercept ?g \<noteq> None"
    by simp
  have 9: "coefficient_line demo_lib [''x''] (Arr2 [[1, 2]])
     = Inl (Exn TypeError
         [''type numpy.ndarray doesn'' @ [CHR 0x27] @ ''t define __round__ method''])"
    by (simp add: coefficient_line_def demo_lib_def andthen_def)
  have 10: "regression_summary demo_lib ?g (Arr1 [1, 2, 3, 4]) (Arr1 [1, 2, 3, 4]) [''x'']
              (Arr2 [[1], [2], [3], [4]])
     = Inl (Exn TypeError
         [''type numpy.ndarray doesn'' @ [CHR 0x27] @ ''t define __round__ method''])"
    by (simp add: regression_summary_def arc_tool_report_def regression_summary_body_def
          fitted_attr_def andthen_def 9)
  note d = regression_summary_requires_fitted
         [of ?g demo_lib "Arr1 [1, 2, 3, 4]" "Arr1 [1, 2, 3, 4]" "[''x'']"
             "Arr2 [[1], [2], [3], [4]]"]
  from c 4 6 7 A B d 8 9 10 show ?thesis by simp
qed

text \<open>
  Claim C1. The claim is that a failure inside the block of lines 101 to 115 leaves the
  whole block out of the returned list. Line 103 appends the header \<^verbatim>\<open>REGRESSOR SCORES\<close>
  before line 104 calls \<^verbatim>\<open>f_regression\<close>, so when that call raises the header stays (lemma
  \<open>regressor_scores_dangling\<close>). Here the independent values are a 1-d array of the same
  length as the dependent array: the row counts agree, \<^verbatim>\<open>f_regression\<close> rejects the array,
  no exception leaves the report builder, and the report ends with a header that has no
  scores under it.
\<close>

theorem regressor_scores_header_left_behind:
  "regression_summary demo_lib
       (LinearRegression\<lparr>coef := Some (Arr1 [1]), intercept := Some 0\<rparr>)
       (Arr1 [1, 2, 3, 4]) (Arr1 [1, 2, 3, 4]) [''x''] (Arr1 [1, 2, 3, 4])
   = Inr [''REGRESSION MODEL: LinearRegression()'', ''MODEL COEFFICENTS'',
          ''  Regression Coefficents:  1.0 * x'', ''  Regression Intercept:    0.0'',
          ''MODEL EVALUATION'', ''  Model Coefficent of Determination: 1.0'',
          ''  Model Mean Squared Error:          0.0'',
          ''  Model Mean Absolute Error:         0.0'',
          ''  Model Median Absolute Error:       0.0'', ''REGRESSOR SCORES'']"
  by (simp add: demo_eval)

section \<open>The model factory\<close>

lemma get_model_unknown:
  assumes "globals h module = Some ns" and "ns_attrs ns rt = None"
  shows "get_model lib h rt module alpha nz s =
    (Inl (Exn AttributeError
            [''module '' @ [CHR 0x27] @ ns_name ns @ [CHR 0x27]
              @ '' has no attribute '' @ [CHR 0x27] @ rt @ [CHR 0x27]]),
     arc_print (''Using input feature class and selected variables to establish ''
                @ rt @ '' Regression Model.'') s)"
  using assms
  by (simp add: get_model_def arc_tool_report_def get_model_body_def lookup_global_def
        getattr_def bnd_simps)

lemma get_model_no_module:
  "globals h module = None \<Longrightarrow>
     get_model lib h rt module alpha nz s = (Inl (Exn KeyError [module]), s)"
  by (simp add: get_model_def arc_tool_report_def get_model_body_def lookup_global_def bnd_simps)

lemma keeps_files_get_model:
  "keeps_files (get_model lib h rt module alpha nz)"
  unfolding get_model_def arc_tool_report_def get_model_body_def
  by (intro keeps_files_bnd keeps_files_basic)
     (simp add: keeps_files_def py_print_def split: sum.splits)

lemma sk_set_params_class:
  "sk_set_params m k v = Inr m' \<Longrightarrow> est_class m' = est_class m"
  by (auto simp: sk_set_params_def split: if_splits)

text \<open>
  Claim C3. If the module is bound and calling its attribute \<open>rt\<close> constructs the estimator
  \<open>m0\<close>, then \<^verbatim>\<open>get_model\<close> returns an estimator for every \<open>alpha\<close> and \<open>normalize\<close> and
  whatever \<^verbatim>\<open>set_params\<close> does: \<^verbatim>\<open>alpha\<close> is applied to \<open>m0\<close> if \<^verbatim>\<open>set_params\<close> accepts it
  and skipped otherwise, giving \<open>m1\<close>; \<^verbatim>\<open>normalize\<close> is then applied to \<open>m1\<close> in the same
  way, whether or not \<^verbatim>\<open>alpha\<close> was applied; one line is printed for each parameter that
  was skipped and none for one that was applied; and the estimator returned is of the class
  of \<open>m0\<close>, given that \<^verbatim>\<open>set_params\<close> does not change the class of an object.
\<close>

theorem get_model_best_effort:
  assumes "globals h module = Some ns" and "ns_attrs ns rt = Some (Inr m0)"
  shows "let m1 = (case set_params lib m0 ''alpha'' alpha of Inr m' \<Rightarrow> m' | Inl e \<Rightarrow> m0);
             m2 = (case set_params lib m1 ''normalize'' nz of Inr m' \<Rightarrow> m' | Inl e \<Rightarrow> m1);
             s' = snd (get_model lib h rt module alpha nz s)
         in fst (get_model lib h rt module alpha nz s) = Inr m2
          \<and> stdout s' = stdout s
              @ (if isl (set_params lib m0 ''alpha'' alpha)
                 then [''Did not set alpha in model...''] else [])
              @ (if isl (set_params lib m1 ''normalize'' nz)
                 then [''Did not set normalize in model...''] else [])
          \<and> ((\<forall>m k v m'. set_params lib m k v = Inr m' \<longrightarrow> est_class m' = est_class m)
                \<longrightarrow> est_class m2 = est_class m0)"
  using assms
  by (auto simp: get_model_def arc_tool_report_def get_model_body_def lookup_global_def
        getattr_def bnd_simps Let_def py_print_def arc_print_def split: sum.splits)

text \<open>
  Witness for C3: \<^verbatim>\<open>LinearRegression\<close> has no \<^verbatim>\<open>alpha\<close>, which is skipped and logged while
  \<^verbatim>\<open>normalize\<close> is applied; \<^verbatim>\<open>Ridge\<close> has both, and both are applied.
\<close>

theorem get_model_best_effort_witness:
  "fst (get_model demo_lib demo_host ''LinearRegression'' ''linear_model'' (PyNum 5)
          (PyBool True) demo_world)
     = Inr (LinearRegression\<lparr>est_params :=
              [(''copy_X'', PyBool True), (''fit_intercept'', PyBool True),
               (''n_jobs'', PyNone), (''normalize'', PyBool True)]\<rparr>)
   \<and> stdout (snd (get_model demo_lib demo_host ''LinearRegression'' ''linear_model'' (PyNum 5)
          (PyBool True) demo_world))
     = [''Did not set alpha in model...'']
   \<and> fst (get_model demo_lib demo_host ''Ridge'' ''linear_model'' (PyNum 5) (PyBool True)
          demo_world)
     = Inr (Ridge\<lparr>est_params :=
              [(''alpha'', PyNum 5), (''fit_intercept'', PyBool True),
               (''normalize'', PyBool True)]\<rparr>)
   \<and> stdout (snd (get_model demo_lib demo_host ''Ridge'' ''linear_model'' (PyNum 5)
          (PyBool True) demo_world))
     = []
   \<and> est_class (Ridge\<lparr>est_params :=
              [(''alpha'', PyNum 5), (''fit_intercept'', PyBool True),
               (''normalize'', PyBool True)]\<rparr>) = est_class Ridge"
proof -
  let ?ns = "\<lparr>ns_name = ''sklearn.linear_model'',
             ns_attrs = map_of [(''LinearRegression'', Inr LinearRegression),
                                (''Ridge'', Inr Ridge)]\<rparr>"
  have g: "globals demo_host ''linear_model'' = Some ?ns"
    by (simp add: demo_host_def)
  have a1: "ns_attrs ?ns ''LinearRegression'' = Some (Inr LinearRegression)"
    and a2: "ns_attrs ?ns ''Ridge'' = Some (Inr Ridge)"
    by simp_all
  have cls: "\<forall>m k v m'. set_params demo_lib m k v = Inr m' \<longrightarrow> est_class m' = est_class m"
    by (auto simp: demo_lib_def dest: sk_set_params_class)
  have sp: "set_params demo_lib = sk_set_params"
    by (simp add: demo_lib_def)
  note t1 = get_model_best_effort [OF g a1, of demo_lib "PyNum 5" "PyBool True" demo_world,
                unfolded Let_def]
  note t2 = get_model_best_effort [OF g a2, of demo_lib "PyNum 5" "PyBool True" demo_world,
                unfolded Let_def]
  from t2 [THEN conjunct2, THEN conjunct2, THEN mp, OF cls]
  have c: "est_class (Ridge\<lparr>est_params :=
              [(''alpha'', PyNum 5), (''fit_intercept'', PyBool True),
               (''normalize'', PyBool True)]\<rparr>) = est_class Ridge"
    by (simp add: sp sk_set_params_def Ridge_def)
  from t1 [THEN conjunct1] t1 [THEN conjunct2, THEN conjunct1]
       t2 [THEN conjunct1] t2 [THEN conjunct2, THEN conjunct1] c
  show ?thesis
    by (simp add: sp sk_set_params_def LinearRegression_def Ridge_def demo_world_def)
qed

section \<open>The orchestrator\<close>

text \<open>Nothing before line 158 touches a file, and neither do the handlers.\<close>

lemma keeps_files_fit_and_report:
  "keeps_files (fit_and_report lib h in_fc rt dv ivs alpha nz)"
  unfolding fit_and_report_def Let_def
  by (intro keeps_files_bnd keeps_files_basic keeps_files_get_model)

lemma fit_and_report_files:
  "fit_and_report lib h in_fc rt dv ivs alpha nz s = (r, s') \<Longrightarrow> files s' = files s"
  using keeps_files_fit_and_report [of lib h in_fc rt dv ivs alpha nz]
  by (metis keeps_files_def snd_conv)

lemma try_body_Inl:
  "fit_and_report lib h in_fc rt dv ivs alpha nz s = (Inl e, s1) \<Longrightarrow>
   try_body lib h in_fc rt dv ivs alpha nz od s = (Inl e, s1)"
  by (simp add: try_body_def bnd_def)

lemma try_body_Inr:
  "fit_and_report lib h in_fc rt dv ivs alpha nz s = (Inr (m, report), s1) \<Longrightarrow>
   try_body lib h in_fc rt dv ivs alpha nz od s = output_report h rt od m report s1"
  by (simp add: try_body_def bnd_def)

lemma handlers_keep_files:
  "files (snd (feature_class_sklearn_regression lib h in_fc rt dv ivs alpha nz od s))
   = files (snd (try_body lib h in_fc rt dv ivs alpha nz od s))"
  by (simp add: feature_class_sklearn_regression_def arc_print_def
        split: prod.splits sum.splits list.splits)

text \<open>The module and its attributes are the only global binding the orchestrator reads.\<close>

lemma get_model_globals_cong:
  assumes "g module = g' module"
  shows "get_model lib (h\<lparr>globals := g\<rparr>) rt module alpha nz
       = get_model lib (h\<lparr>globals := g'\<rparr>) rt module alpha nz"
  using assms
  by (simp add: get_model_def arc_tool_report_def get_model_body_def lookup_global_def)

lemma extend_table_globals:
  "extend_table (h\<lparr>globals := g\<rparr>) = extend_table h"
  by (intro ext) (simp add: extend_table_def)

lemma fit_and_report_globals_cong:
  assumes "g ''linear_model'' = g' ''linear_model''"
  shows "fit_and_report lib (h\<lparr>globals := g\<rparr>) in_fc rt dv ivs alpha nz
       = fit_and_report lib (h\<lparr>globals := g'\<rparr>) in_fc rt dv ivs alpha nz"
  unfolding fit_and_report_def
  by (simp add: get_model_globals_cong [of g "''linear_model''" g', OF assms]
        extend_table_globals)

lemma os_path_join_globals: "os_path_join (h\<lparr>globals := g\<rparr>) = os_path_join h"
  by (intro ext) (simp add: os_path_join_def split: option.splits)

lemma open_write_globals: "open_write (h\<lparr>globals := g\<rparr>) = open_write h"
  by (intro ext) (simp add: open_write_def)

lemma os_remove_globals: "os_remove (h\<lparr>globals := g\<rparr>) = os_remove h"
  by (intro ext) (simp add: os_remove_def)

lemma joblib_dump_globals: "joblib_dump (h\<lparr>globals := g\<rparr>) = joblib_dump h"
  by (intro ext) (simp add: joblib_dump_def)

lemmas files_globals =
  os_path_join_globals open_write_globals os_remove_globals joblib_dump_globals

lemma output_report_globals:
  "output_report (h\<lparr>globals := g\<rparr>) rt od m report = output_report h rt od m report"
  by (simp add: output_report_def files_globals Let_def cong: if_cong)

text \<open>
  Claim C9. \<^verbatim>\<open>get_model\<close> looks its module argument up in the global bindings first: if the
  name is not bound, the call raises \<^verbatim>\<open>KeyError\<close> of that name whatever the type name is,
  and the world is untouched (not even the first message is reported). The orchestrator
  passes \<^verbatim>\<open>"linear_model"\<close>: unbinding every other global name changes nothing in what it
  does, so only the attributes of that one module can be reached through it.
\<close>

theorem module_lookup:
  "(globals h module = None \<longrightarrow>
      get_model lib h rt module alpha nz s = (Inl (Exn KeyError [module]), s))
   \<and> feature_class_sklearn_regression lib (h\<lparr>globals := g\<rparr>) in_fc rt dv ivs alpha nz od s
     = feature_class_sklearn_regression lib
         (h\<lparr>globals := (\<lambda>k. if k = ''linear_model'' then g k else None)\<rparr>)
         in_fc rt dv ivs alpha nz od s"
proof -
  have "fit_and_report lib (h\<lparr>globals := g\<rparr>) in_fc rt dv ivs alpha nz
      = fit_and_report lib (h\<lparr>globals := (\<lambda>k. if k = ''linear_model'' then g k else None)\<rparr>)
          in_fc rt dv ivs alpha nz"
    by (rule fit_and_report_globals_cong) simp
  then show ?thesis
    by (simp add: get_model_no_module feature_class_sklearn_regression_def try_body_def
          output_report_globals split: prod.splits sum.splits)
qed

text \<open>Witness for C9: \<^verbatim>\<open>sklearn\<close> is not a global name of the example.\<close>

theorem module_lookup_witness:
  "globals demo_host ''sklearn'' = None
   \<and> get_model demo_lib demo_host ''Ridge'' ''sklearn'' (PyNum 1) (PyBool False) demo_world
     = (Inl (Exn KeyError [''sklearn'']), demo_world)"
proof -
  have g: "globals demo_host ''sklearn'' = None"
    by (simp add: demo_host_def)
  from module_lookup [of demo_host "''sklearn''" demo_lib "''Ridge''" "PyNum 1" "PyBool False"
         demo_world] g
  show ?thesis by simp
qed

text \<open>With an unknown type name, line 142 raises if it is reached at all.\<close>

lemma fit_and_report_unknown:
  assumes "globals h ''linear_model'' = Some ns" and "ns_attrs ns rt = None"
  shows "isl (fst (fit_and_report lib h in_fc rt dv ivs alpha nz s))"
  unfolding fit_and_report_def Let_def
  apply (rule bnd_raises_rest)
  apply (rule bnd_raises_rest)
  apply (rule bnd_raises_rest)
  apply (rule bnd_raises_rest)
  apply (rule bnd_raises_rest)
  apply (rule bnd_raises_rest)
  apply (rule bnd_raises_rest)
  apply (rule bnd_raises_first)
  apply (simp add: get_model_unknown [OF assms])
  done

text \<open>
  Claim C5. If the type name is not an attribute of the module \<^verbatim>\<open>linear_model\<close>, then
  \<^verbatim>\<open>get_model\<close> raises the \<^verbatim>\<open>AttributeError\<close> of the failed lookup (the error the
  specification calls \<^verbatim>\<open>UnknownModelError\<close>), and the orchestrator leaves the file system as
  it was: it writes no report file and no model file, for every output directory.
\<close>

theorem unknown_type_name:
  assumes "globals h ''linear_model'' = Some ns" and "ns_attrs ns rt = None"
  shows "fst (get_model lib h rt ''linear_model'' alpha nz s) =
           Inl (Exn AttributeError
                  [''module '' @ [CHR 0x27] @ ns_name ns @ [CHR 0x27]
                     @ '' has no attribute '' @ [CHR 0x27] @ rt @ [CHR 0x27]])
       \<and> files (snd (feature_class_sklearn_regression lib h in_fc rt dv ivs alpha nz od s))
           = files s"
proof -
  obtain r s1 where fr: "fit_and_report lib h in_fc rt dv ivs alpha nz s = (r, s1)"
    by (cases "fit_and_report lib h in_fc rt dv ivs alpha nz s")
  with fit_and_report_unknown [OF assms, of lib in_fc dv ivs alpha nz s]
  obtain e where r: "r = Inl e" by (cases r) auto
  from fr r have "try_body lib h in_fc rt dv ivs alpha nz od s = (Inl e, s1)"
    by (simp add: try_body_Inl)
  moreover from fr have "files s1 = files s" by (rule fit_and_report_files)
  ultimately show ?thesis
    by (simp add: handlers_keep_files get_model_unknown [OF assms])
qed

text \<open>Witness for C5: the type name \<^verbatim>\<open>NotAModel\<close>, with a valid output directory.\<close>

theorem unknown_type_name_witness:
  "fst (get_model demo_lib demo_host ''NotAModel'' ''linear_model'' (PyNum 1) (PyBool False)
          demo_world)
     = Inl (Exn AttributeError
         [''module '' @ [CHR 0x27] @ ''sklearn.linear_model'' @ [CHR 0x27]
            @ '' has no attribute '' @ [CHR 0x27] @ ''NotAModel'' @ [CHR 0x27]])
   \<and> files (snd (feature_class_sklearn_regression demo_lib demo_host ''parcels'' ''NotAModel''
          ''y'' [''x1'', ''x2''] (PyNum 1) (PyBool False) (Some ''C:/out'') demo_world))
        ''C:/out/NotAModel_Report.txt'' = None
   \<and> files (snd (feature_class_sklearn_regression demo_lib demo_host ''parcels'' ''NotAModel''
          ''y'' [''x1'', ''x2''] (PyNum 1) (PyBool False) (Some ''C:/out'') demo_world))
        ''C:/out/NotAModel_Model.pkl'' = None"
proof -
  let ?ns = "\<lparr>ns_name = ''sklearn.linear_model'',
             ns_attrs = map_of [(''LinearRegression'', Inr LinearRegression),
                                (''Ridge'', Inr Ridge)]\<rparr>"
  have g: "globals demo_host ''linear_model'' = Some ?ns"
    by (simp add: demo_host_def)
  have a: "ns_attrs ?ns ''NotAModel'' = None"
    by simp
  from unknown_type_name [OF g a, of demo_lib "PyNum 1" "PyBool False" demo_world
         "''parcels''" "''y''" "[''x1'', ''x2'']" "Some ''C:/out''"]
  show ?thesis
    by (simp add: demo_world_def)
qed

text \<open>The example up to line 157, for any \<^verbatim>\<open>joblib.dump\<close> and any files.\<close>

lemma demo_fit_and_report_fs:
  "fit_and_report demo_lib (demo_host\<lparr>dump := dmp\<rparr>) ''parcels'' ''LinearRegression'' ''y''
       [''x1'', ''x2''] (PyNum 1) (PyBool False) (demo_world\<lparr>files := fs\<rparr>)
   = (Inr (demo_fitted, demo_report), demo_after_fit\<lparr>files := fs\<rparr>)"
  by (simp add: fit_and_report_def demo_eval demo_host_eval demo_fitted_def demo_report_def
        demo_after_fit_def)

lemma demo_fit_and_report0:
  "fit_and_report demo_lib demo_host ''parcels'' ''LinearRegression'' ''y''
       [''x1'', ''x2''] (PyNum 1) (PyBool False) demo_world
   = (Inr (demo_fitted, demo_report), demo_after_fit)"
  using demo_fit_and_report_fs [of "dump demo_host" "files demo_world"]
  by (simp add: demo_after_fit_def)

text \<open>
  Claim C8. Let lines 127 to 157 succeed with the fitted model \<open>m\<close>, let the output directory
  be a directory, let \<^verbatim>\<open>open\<close> succeed on the report path, and let \<^verbatim>\<open>joblib.dump\<close> of \<open>m\<close>
  raise. Then the body of the \<^verbatim>\<open>try\<close> ends in an exception and, after the handlers, the
  report file exists and is empty, whatever it held before: it was opened, and so truncated,
  at line 163, before line 168; nothing removes it. The model path holds no new file: it is
  absent or holds what it held before.
\<close>

theorem report_file_left_empty:
  assumes "fit_and_report lib h in_fc rt dv ivs alpha nz s = (Inr (m, report), s1)"
    and "files s d = Some Dir"
    and "open_w h (path_join h d (rt @ ''_Report.txt'')) = None"
    and "path_join h d (rt @ ''_Model.pkl'') \<noteq> path_join h d (rt @ ''_Report.txt'')"
    and "dump h m (path_join h d (rt @ ''_Model.pkl'')) = Some e"
  shows "let s2 = snd (feature_class_sklearn_regression lib h in_fc rt dv ivs alpha nz (Some d) s)
         in isl (fst (try_body lib h in_fc rt dv ivs alpha nz (Some d) s))
          \<and> files s2 (path_join h d (rt @ ''_Report.txt'')) = Some (Text [])
          \<and> (files s2 (path_join h d (rt @ ''_Model.pkl'')) = None
             \<or> files s2 (path_join h d (rt @ ''_Model.pkl''))
                = files s (path_join h d (rt @ ''_Model.pkl'')))"
proof -
  from assms(1) have f1: "files s1 = files s" by (rule fit_and_report_files)
  have tb: "try_body lib h in_fc rt dv ivs alpha nz (Some d) s
          = output_report h rt (Some d) m report s1"
    using assms(1) by (rule try_body_Inr)
  show ?thesis
    unfolding Let_def handlers_keep_files tb
    using assms(2-5) f1
    by (auto simp: output_report_def os_path_isdir_def bnd_def act_def arc_print_def
          lift_def os_path_join_def open_write_def os_path_exists_def os_remove_def
          joblib_dump_def Let_def split: option.splits)
qed

text \<open>
  Witness for C8: the run on the two features \<^verbatim>\<open>x1\<close> and \<^verbatim>\<open>x2\<close>; the import of \<^verbatim>\<open>joblib\<close>
  has failed, so line 168 raises \<^verbatim>\<open>NameError\<close>; the report file held a line before the run.
\<close>

theorem report_file_left_empty_witness:
  "isl (fst (try_body demo_lib
         (demo_host\<lparr>dump := (\<lambda>m p. Some (Exn NameError
            [''name '' @ [CHR 0x27] @ ''joblib'' @ [CHR 0x27] @ '' is not defined'']))\<rparr>)
         ''parcels'' ''LinearRegression'' ''y'' [''x1'', ''x2''] (PyNum 1) (PyBool False) (Some ''C:/out'')
         (demo_world\<lparr>files := map_of
            [(''C:/out'', Dir), (''C:/out/LinearRegression_Report.txt'', Text [''old''])]\<rparr>)))
   \<and> files (snd (feature_class_sklearn_regression demo_lib
         (demo_host\<lparr>dump := (\<lambda>m p. Some (Exn NameError
            [''name '' @ [CHR 0x27] @ ''joblib'' @ [CHR 0x27] @ '' is not defined'']))\<rparr>)
         ''parcels'' ''LinearRegression'' ''y'' [''x1'', ''x2''] (PyNum 1) (PyBool False) (Some ''C:/out'')
         (demo_world\<lparr>files := map_of
            [(''C:/out'', Dir), (''C:/out/LinearRegression_Report.txt'', Text [''old''])]\<rparr>)))
       ''C:/out/LinearRegression_Report.txt'' = Some (Text [])
   \<and> files (snd (feature_class_sklearn_regression demo_lib
         (demo_host\<lparr>dump := (\<lambda>m p. Some (Exn NameError
            [''name '' @ [CHR 0x27] @ ''joblib'' @ [CHR 0x27] @ '' is not defined'']))\<rparr>)
         ''parcels'' ''LinearRegression'' ''y'' [''x1'', ''x2''] (PyNum 1) (PyBool False) (Some ''C:/out'')
         (demo_world\<lparr>files := map_of
            [(''C:/out'', Dir), (''C:/out/LinearRegression_Report.txt'', Text [''old''])]\<rparr>)))
       ''C:/out/LinearRegression_Model.pkl'' = None"
proof -
  let ?e = "Exn NameError [''name '' @ [CHR 0x27] @ ''joblib'' @ [CHR 0x27] @ '' is not defined'']"
  let ?h = "demo_host\<lparr>dump := (\<lambda>m p. Some ?e)\<rparr>"
  let ?fs = "map_of [(''C:/out'', Dir), (''C:/out/LinearRegression_Report.txt'', Text [''old''])]
               :: string \<rightharpoonup> rat fcontent"
  let ?s = "demo_world\<lparr>files := ?fs\<rparr>"
  have pj: "path_join demo_host = (\<lambda>a b. a @ ''/'' @ b)"
    by (simp add: demo_host_def)
  have 1: "files ?s ''C:/out'' = Some Dir" by simp
  have 2: "open_w ?h (path_join ?h ''C:/out'' (''LinearRegression'' @ ''_Report.txt'')) = None"
    by (simp add: demo_host_def)
  have 3: "path_join ?h ''C:/out'' (''LinearRegression'' @ ''_Model.pkl'')
           \<noteq> path_join ?h ''C:/out'' (''LinearRegression'' @ ''_Report.txt'')"
    by (simp add: pj)
  have 4: "dump ?h demo_fitted (path_join ?h ''C:/out'' (''LinearRegression'' @ ''_Model.pkl''))
           = Some ?e"
    by simp
  from report_file_left_empty [OF demo_fit_and_report_fs 1 2 3 4]
  show ?thesis
    by (simp add: Let_def pj)
qed

text \<open>What lines 158 to 175 do when the directory is absent and when it is not a directory.\<close>

lemma report_loop_invalid:
  "report_loop False p report s = s\<lparr>messages := messages s @ report\<rparr>"
  by (induction report arbitrary: s) (simp_all add: arc_print_def)

lemma output_report_None:
  "output_report h rt None m report s =
     (Inl (Exn TypeError
        [''stat: path should be string, bytes, os.PathLike or integer, not NoneType'']), s)"
  by (simp add: output_report_def os_path_isdir_def bnd_def)

lemma output_report_invalid:
  assumes "files s d \<noteq> Some Dir"
  shows "output_report h rt (Some d) m report s =
     (Inr (), s\<lparr>messages := messages s @ report @ [''Script Completed Successfully.'']\<rparr>)"
  using assms
  by (simp add: output_report_def os_path_isdir_def bnd_def ret_def act_def
        report_loop_invalid arc_print_def)

lemma absent_directory:
  assumes "fit_and_report lib h in_fc rt dv ivs alpha nz s = (Inr (m, report), s1)"
  shows "feature_class_sklearn_regression lib h in_fc rt dv ivs alpha nz None s
       = (None, arc_print
            ''stat: path should be string, bytes, os.PathLike or integer, not NoneType'' s1)"
  by (simp add: feature_class_sklearn_regression_def try_body_Inr [OF assms]
        output_report_None is_Exception_def)

lemma invalid_directory:
  assumes "fit_and_report lib h in_fc rt dv ivs alpha nz s = (Inr (m, report), s1)"
    and "files s d \<noteq> Some Dir"
  shows "feature_class_sklearn_regression lib h in_fc rt dv ivs alpha nz (Some d) s
       = (None, s1\<lparr>messages := messages s1 @ report @ [''Script Completed Successfully.'']\<rparr>)"
proof -
  from assms have "files s1 d \<noteq> Some Dir"
    by (simp add: fit_and_report_files)
  then show ?thesis
    by (simp add: feature_class_sklearn_regression_def try_body_Inr [OF assms(1)]
          output_report_invalid)
qed

text \<open>
  Claim C2. The claim is that with an invalid or absent output directory the report is still
  logged. It is when the directory is a path that is not a directory (lemma
  \<open>invalid_directory\<close>). It is not when the directory is absent, that is \<^verbatim>\<open>None\<close>, the
  default of the parameter: line 158 raises \<^verbatim>\<open>TypeError\<close>, the handler of line 178 reports
  its message, and neither the report lines nor the closing message are logged (lemma
  \<open>absent_directory\<close>). On the example, with the two features \<^verbatim>\<open>x1\<close> and \<^verbatim>\<open>x2\<close>, so that
  line 158 is reached:
\<close>

theorem default_output_dir_report_not_logged:
  "fst (feature_class_sklearn_regression demo_lib demo_host ''parcels'' ''LinearRegression''
          ''y'' [''x1'', ''x2''] (PyNum 1) (PyBool False) None demo_world) = None
   \<and> messages (snd (feature_class_sklearn_regression demo_lib demo_host ''parcels''
          ''LinearRegression'' ''y'' [''x1'', ''x2''] (PyNum 1) (PyBool False) None demo_world))
     = [''Converting '' @ [CHR 0x27] @ ''parcels'' @ [CHR 0x27]
          @ '' feature class fields to numpy arrays.'',
        ''Using input feature class and selected variables to establish LinearRegression Regression Model.'',
        ''Fitting LinearRegression() model to data.'',
        ''Extending Prediction Fields to Output Feature Class.'',
        ''stat: path should be string, bytes, os.PathLike or integer, not NoneType'']"
  by (simp add: absent_directory [OF demo_fit_and_report0] arc_print_def demo_after_fit_def)

text \<open>
  What the handlers do with an exception \<open>e\<close> raised by the body in the world \<open>s'\<close>. An
  \<^verbatim>\<open>arcpy.ExecuteError\<close> is caught and \<^verbatim>\<open>arcpy.GetMessages(2)\<close> reported; any other
  \<^verbatim>\<open>Exception\<close> that carries an argument is caught and its first argument reported; in both
  cases nothing else is done and no exception reaches the caller.
\<close>

lemma handlers_report_and_halt:
  assumes "try_body lib h in_fc rt dv ivs alpha nz od s = (Inl e, s')"
  shows "(exn_cls e = ExecuteError \<longrightarrow>
            feature_class_sklearn_regression lib h in_fc rt dv ivs alpha nz od s
              = (None, arc_print (GetMessages h 2) s'))
       \<and> (exn_cls e \<noteq> ExecuteError \<and> is_Exception (exn_cls e) \<and> exn_args e \<noteq> [] \<longrightarrow>
            feature_class_sklearn_regression lib h in_fc rt dv ivs alpha nz od s
              = (None, arc_print (hd (exn_args e)) s'))"
  using assms
  by (auto simp: feature_class_sklearn_regression_def split: list.splits)

text \<open>
  An exception that is not an \<^verbatim>\<open>Exception\<close> (\<^verbatim>\<open>KeyboardInterrupt\<close>, \<^verbatim>\<open>SystemExit\<close>) passes
  both clauses and reaches the caller.
\<close>

lemma handlers_pass_other_exceptions:
  assumes "try_body lib h in_fc rt dv ivs alpha nz od s = (Inl e, s')"
    and "\<not> is_Exception (exn_cls e)"
  shows "feature_class_sklearn_regression lib h in_fc rt dv ivs alpha nz od s = (Some e, s')"
  using assms
  by (auto simp: feature_class_sklearn_regression_def is_Exception_def)

text \<open>
  An \<^verbatim>\<open>Exception\<close> other than \<^verbatim>\<open>ExecuteError\<close> that carries no argument is caught at line
  178, and line 179 raises \<^verbatim>\<open>IndexError\<close> out of the handler: nothing is reported.
\<close>

lemma handler_raises_without_args:
  assumes "try_body lib h in_fc rt dv ivs alpha nz od s = (Inl e, s')"
    and "exn_cls e \<noteq> ExecuteError" and "is_Exception (exn_cls e)" and "exn_args e = []"
  shows "feature_class_sklearn_regression lib h in_fc rt dv ivs alpha nz od s
       = (Some (Exn IndexError [''tuple index out of range'']), s')"
  using assms
  by (simp add: feature_class_sklearn_regression_def)

text \<open>
  Claim C4. The claim is that every exception other than \<^verbatim>\<open>arcpy.ExecuteError\<close> is caught
  with its first argument reported, and that the handlers never crash. Line 179 reads
  \<^verbatim>\<open>e.args[0]\<close>, and an exception may carry no argument: the \<^verbatim>\<open>MemoryError\<close> that the
  interpreter raises does not. Here reading the columns runs out of memory: the handler of
  line 178 catches the \<^verbatim>\<open>MemoryError\<close>, line 179 raises \<^verbatim>\<open>IndexError\<close>, and that exception
  reaches the caller with nothing reported.
\<close>

theorem handler_crashes_on_exception_without_args:
  "feature_class_sklearn_regression demo_lib
       (demo_host\<lparr>FeatureClassToNumPyArray := (\<lambda>fc fields. Inl (Exn MemoryError []))\<rparr>)
       ''parcels'' ''LinearRegression'' ''y'' [''x1'', ''x2''] (PyNum 1) (PyBool False)
       (Some ''C:/out'') demo_world
   = (Some (Exn IndexError [''tuple index out of range'']),
      arc_print (''Converting '' @ [CHR 0x27] @ ''parcels'' @ [CHR 0x27]
                   @ '' feature class fields to numpy arrays.'') demo_world)"
proof -
  let ?h = "demo_host\<lparr>FeatureClassToNumPyArray := (\<lambda>fc fields. Inl (Exn MemoryError []))\<rparr>"
  have "try_body demo_lib ?h ''parcels'' ''LinearRegression'' ''y'' [''x1'', ''x2''] (PyNum 1)
          (PyBool False) (Some ''C:/out'') demo_world
        = (Inl (Exn MemoryError []),
           arc_print (''Converting '' @ [CHR 0x27] @ ''parcels'' @ [CHR 0x27]
                        @ '' feature class fields to numpy arrays.'') demo_world)"
    by (simp add: try_body_def fit_and_report_def bnd_def lift_def act_def demo_host_def)
  then show ?thesis
    by (rule handler_raises_without_args) (simp_all add: is_Exception_def)
qed

end
